theory Spec2Isabelle
  imports Complex_Main "HOL-Library.Sublist" "HOL-Library.Multiset"
begin

section \<open>JavaScript strings and values\<close>

text \<open>
  A JavaScript string is a sequence of UTF-16 code units. The model uses \<^typ>\<open>string\<close>,
  whose characters are the code units below 256 (ASCII and Latin-1); on these
  \<open>length\<close> is \<open>String.length\<close>, and \<open>toLowerCase\<close> and \<open>trim\<close> are as below.
\<close>

definition toLowerChar :: "char \<Rightarrow> char" where
  "toLowerChar c =
     (let n = (of_char c :: nat)
      in if (65 \<le> n \<and> n \<le> 90) \<or> (192 \<le> n \<and> n \<le> 222 \<and> n \<noteq> 215)
         then char_of (n + 32) else c)"

definition toLowerCase :: "string \<Rightarrow> string" where
  "toLowerCase s = map toLowerChar s"

text \<open>\<open>s.includes(t)\<close>: \<open>t\<close> occurs in \<open>s\<close> as a contiguous run of code units.\<close>

definition str_includes :: "string \<Rightarrow> string \<Rightarrow> bool" where
  "str_includes s t = sublist t s"

text \<open>White space and line terminators of ECMAScript among the code units below 256.\<close>

definition isWhiteSpace :: "char \<Rightarrow> bool" where
  "isWhiteSpace c = ((of_char c :: nat) \<in> {9, 10, 11, 12, 13, 32, 160})"

definition trim :: "string \<Rightarrow> string" where
  "trim s = rev (dropWhile isWhiteSpace (rev (dropWhile isWhiteSpace s)))"

text \<open>\<open>xs.join(sep)\<close> of an array of strings.\<close>

fun joinStrings :: "string \<Rightarrow> string list \<Rightarrow> string" where
  "joinStrings sep [] = []"
| "joinStrings sep [x] = x"
| "joinStrings sep (x # y # ys) = x @ sep @ joinStrings sep (y # ys)"

text \<open>\<open>s.split(c)\<close> at a one-character separator: the pieces between the separators,
  \<open>[s]\<close> when there is none.\<close>

fun split :: "char \<Rightarrow> string \<Rightarrow> string list" where
  "split c [] = [[]]"
| "split c (x # xs) =
     (if x = c then [] # split c xs
      else (case split c xs of [] \<Rightarrow> [[x]] | p # ps \<Rightarrow> (x # p) # ps))"

text \<open>\<open>join\<close> of \<open>node:path\<close> on two segments. The normalisation of \<open>.\<close> and
  \<open>..\<close> segments is not modelled: it decides which directory is read, not a score.\<close>

definition join :: "string \<Rightarrow> string \<Rightarrow> string" where
  "join dir entry = dir @ ''/'' @ entry"

text \<open>The values a tool handler can receive as its \<open>unknown\<close> input.\<close>

datatype js_value =
    JUndefined
  | JNull
  | JBoolean bool
  | JNumber int
  | JString string
  | JArray "js_value list"
  | JObject "(string \<times> js_value) list"

text \<open>Property read \<open>o[k]\<close> of an object, given as its list of keys and values (the keys
  of an object are distinct): an absent key reads as \<open>undefined\<close>.\<close>

definition getProp :: "(string \<times> js_value) list \<Rightarrow> string \<Rightarrow> js_value" where
  "getProp kvs k = (case map_of kvs k of None \<Rightarrow> JUndefined | Some v \<Rightarrow> v)"

datatype error =
    InvalidInput
  | SkillNotFound string
  | IOError

text \<open>The result of a zod schema for \<open>z.string()\<close>, \<open>z.string().optional()\<close> and
  \<open>z.array(z.string()).optional()\<close>: \<open>None\<close> is a validation issue.\<close>

definition zString :: "js_value \<Rightarrow> string option" where
  "zString v = (case v of JString s \<Rightarrow> Some s | _ \<Rightarrow> None)"

definition zOptionalString :: "js_value \<Rightarrow> string option option" where
  "zOptionalString v =
     (case v of JUndefined \<Rightarrow> Some None | JString s \<Rightarrow> Some (Some s) | _ \<Rightarrow> None)"

fun zStrings :: "js_value list \<Rightarrow> string list option" where
  "zStrings [] = Some []"
| "zStrings (v # vs) =
     (case zString v of
        None \<Rightarrow> None
      | Some s \<Rightarrow> (case zStrings vs of None \<Rightarrow> None | Some ss \<Rightarrow> Some (s # ss)))"

definition zOptionalStringArray :: "js_value \<Rightarrow> string list option option" where
  "zOptionalStringArray v =
     (case v of
        JUndefined \<Rightarrow> Some None
      | JArray vs \<Rightarrow> (case zStrings vs of None \<Rightarrow> None | Some ss \<Rightarrow> Some (Some ss))
      | _ \<Rightarrow> None)"

text \<open>The field \<open>ok\<close> of a \<open>Result\<close>.\<close>

definition ok :: "'e + 'a \<Rightarrow> bool" where
  "ok r = (case r of Inl _ \<Rightarrow> False | Inr _ \<Rightarrow> True)"

text \<open>
  \<open>Array.prototype.sort(cmp)\<close> is a stable sort: \<open>a\<close> stays before \<open>b\<close> unless
  \<open>cmp(a, b) > 0\<close>. Modelled as insertion from the right end.
\<close>

fun insertBy :: "('a \<Rightarrow> 'a \<Rightarrow> int) \<Rightarrow> 'a \<Rightarrow> 'a list \<Rightarrow> 'a list" where
  "insertBy cmp x [] = [x]"
| "insertBy cmp x (y # ys) = (if cmp x y \<le> 0 then x # y # ys else y # insertBy cmp x ys)"

definition sortBy :: "('a \<Rightarrow> 'a \<Rightarrow> int) \<Rightarrow> 'a list \<Rightarrow> 'a list" where
  "sortBy cmp xs = foldr (insertBy cmp) xs []"

section \<open>suggest_agent\<close>

text \<open>Records that share field names in the source (\<open>name\<close>, \<open>confidence\<close>,
  \<open>matchedSignals\<close>, \<open>recommendations\<close>) extend a common parent record here.\<close>

record Named =
  name :: string
  description :: string

record AgentSummary = Named +
  whenToUse :: string
  estimatedDuration :: string

record AgentMetadata = AgentSummary +
  complexitySignals :: "string list"
  domainSignals :: "string list"

record Scored =
  confidence :: int

record ScoredSignals = Scored +
  matchedSignals :: "string list"

record MatchResult = ScoredSignals +
  reasoning :: string

record 'a Recommendation = MatchResult +
  agent :: 'a

type_synonym AgentRecommendation = "AgentMetadata Recommendation"

record 'r Recommendations =
  recommendations :: "'r list"

type_synonym SuggestAgentOutput = "AgentSummary Recommendation Recommendations"

definition task_spec_creator :: AgentMetadata where
  "task_spec_creator = \<lparr>
     name = ''task-spec-creator'',
     description = ''Creates detailed task specifications for complex features'',
     whenToUse = ''Multi-step features, architectural changes, tasks >4 hours'',
     estimatedDuration = ''>4 hours'',
     complexitySignals = [''multi-step'', ''architecture'', ''refactor entire'', ''redesign'',
       ''rebuild'', ''major feature'', ''complex'', ''system'', ''build'', ''implement new'',
       ''add feature''],
     domainSignals = [''feature'', ''system'', ''workflow'', ''integration'']\<rparr>"

definition convex_architect :: AgentMetadata where
  "convex_architect = \<lparr>
     name = ''convex-architect'',
     description = ''Expert in Convex backend implementation with security best practices'',
     whenToUse = ''Convex backend work, mutations, queries, schemas, database design'',
     estimatedDuration = ''1-4 hours'',
     complexitySignals = [''implement'', ''create'', ''build'', ''design'', ''refactor''],
     domainSignals = [''convex'', ''mutation'', ''query'', ''action'', ''schema'', ''database'',
       ''backend'', ''api'', ''server'']\<rparr>"

definition security_auditor :: AgentMetadata where
  "security_auditor = \<lparr>
     name = ''security-auditor'',
     description = ''Reviews code for security vulnerabilities and best practices'',
     whenToUse = ''Security reviews, auth implementation, vulnerability assessment'',
     estimatedDuration = ''1-2 hours'',
     complexitySignals = [''audit'', ''review'', ''check'', ''verify'', ''assess'', ''analyze''],
     domainSignals = [''security'', ''auth'', ''authentication'', ''authorization'',
       ''validation'', ''sanitize'', ''vulnerability'', ''exploit'', ''xss'', ''sql injection'',
       ''csrf'']\<rparr>"

definition plan_reviewer :: AgentMetadata where
  "plan_reviewer = \<lparr>
     name = ''plan-reviewer'',
     description = ''Reviews task specifications and implementation plans'',
     whenToUse = ''Reviewing plans, assessing feasibility, catching issues early'',
     estimatedDuration = ''30 minutes - 1 hour'',
     complexitySignals = [''review'', ''assess'', ''evaluate'', ''check'', ''validate''],
     domainSignals = [''plan'', ''specification'', ''task spec'', ''design'', ''approach'',
       ''strategy'']\<rparr>"

definition AGENTS :: "AgentMetadata list" where
  "AGENTS = [task_spec_creator, convex_architect, security_auditor, plan_reviewer]"

text \<open>\<open>suggestAgentInputSchema\<close>: \<open>z.object({ prompt: z.string().trim().min(1).max(10000) })\<close>.
  The checks of a zod string run in the order written, so the length bounds are
  tested on the trimmed string, which is also the parsed value.\<close>

definition suggestAgentInputSchema :: "js_value \<Rightarrow> error + string" where
  "suggestAgentInputSchema input =
     (case input of
        JObject kvs \<Rightarrow>
          (case getProp kvs ''prompt'' of
             JString s \<Rightarrow>
               (let t = trim s
                in if 1 \<le> length t \<and> length t \<le> 10000 then Inr t else Inl InvalidInput)
           | _ \<Rightarrow> Inl InvalidInput)
      | _ \<Rightarrow> Inl InvalidInput)"

definition generateReasoning :: "AgentMetadata \<Rightarrow> string list \<Rightarrow> string" where
  "generateReasoning a matched =
     (let complexityMatches = filter (\<lambda>s. s \<in> set (complexitySignals a)) matched;
          domainMatches = filter (\<lambda>s. s \<in> set (domainSignals a)) matched;
          reasons =
            (if name a = ''task-spec-creator'' then
               (if list_ex (\<lambda>s. s \<in> set [''multi-step'', ''architecture'', ''complex'',
                                             ''major feature'']) complexityMatches
                then [''This appears to be a complex, multi-step task''] else [])
               @ (if length matched \<ge> 3
                  then [''Estimated as a '' @ estimatedDuration a @ '' task''] else [])
               @ [''task-spec-creator will create a detailed specification with phases, context strategy, and success criteria'']
             else if name a = ''convex-architect'' then
               (if length domainMatches > 0
                then [''Convex-specific work detected: '' @ joinStrings '', '' (take 3 domainMatches)]
                else [])
               @ [''convex-architect specializes in backend implementation with security best practices'']
             else if name a = ''security-auditor'' then
               (if length domainMatches > 0
                then [''Security concerns: '' @ joinStrings '', '' (take 3 domainMatches)] else [])
               @ [''security-auditor will review for vulnerabilities and recommend mitigations'']
             else if name a = ''plan-reviewer'' then
               (if list_ex (\<lambda>s. s \<in> set [''plan'', ''specification'']) domainMatches
                then [''Plan or specification review requested''] else [])
               @ [''plan-reviewer will assess feasibility and catch potential issues early'']
             else [])
      in joinStrings ''. '' reasons)"

definition matchAgent :: "string \<Rightarrow> AgentMetadata \<Rightarrow> MatchResult" where
  "matchAgent prompt a =
     (let normalizedPrompt = toLowerCase prompt;
          matched = filter (\<lambda>signal. str_includes normalizedPrompt signal) (complexitySignals a)
                  @ filter (\<lambda>signal. str_includes normalizedPrompt signal) (domainSignals a)
      in if length matched = 0
         then \<lparr>confidence = 0, matchedSignals = [], reasoning = ''''\<rparr>
         else \<lparr>confidence = min 95 (60 + (int (length matched) - 1) * 10),
               matchedSignals = matched,
               reasoning = generateReasoning a matched\<rparr>)"

text \<open>The loop of \<open>suggestAgent\<close> over the catalog, pushing the agents that reach 50.\<close>

fun collect :: "string \<Rightarrow> AgentMetadata list \<Rightarrow> AgentRecommendation list" where
  "collect prompt [] = []"
| "collect prompt (a # as) =
     (let m = matchAgent prompt a
      in if confidence m \<ge> 50
         then \<lparr>confidence = confidence m, matchedSignals = matchedSignals m,
               reasoning = reasoning m, agent = a\<rparr> # collect prompt as
         else collect prompt as)"

definition summary :: "AgentRecommendation \<Rightarrow> AgentSummary Recommendation" where
  "summary r =
     \<lparr>confidence = confidence r, matchedSignals = matchedSignals r, reasoning = reasoning r,
      agent = \<lparr>name = name (agent r), description = description (agent r),
               whenToUse = whenToUse (agent r),
               estimatedDuration = estimatedDuration (agent r)\<rparr>\<rparr>"

definition suggestAgent :: "js_value \<Rightarrow> error + SuggestAgentOutput" where
  "suggestAgent input =
     (case suggestAgentInputSchema input of
        Inl e \<Rightarrow> Inl InvalidInput
      | Inr prompt \<Rightarrow>
          Inr \<lparr>recommendations =
                 map summary
                   (sortBy (\<lambda>a b. confidence b - confidence a) (collect prompt AGENTS))\<rparr>)"

section \<open>get_skill_resources\<close>

record ResourceFile =
  fileName :: string
  filePath :: string
  topic :: string
  skillName :: string

text \<open>The result of \<open>calculateRelevance\<close>; its field \<open>reasoning\<close> is
  \<open>resourceReasoning\<close> here, the name being taken by the agent records.\<close>

record RelevanceResult =
  relevance :: int
  resourceReasoning :: string

record ResourceRecommendation = RelevanceResult +
  resource :: ResourceFile

record GetSkillResourcesOutput = "ResourceRecommendation Recommendations" +
  totalResources :: nat

text \<open>What the handler reads of the file system: \<open>existsSync\<close>, \<open>readdirSync\<close> and
  \<open>statSync(p).isFile()\<close>, the last two with \<open>Inl\<close> where the call throws.\<close>

record FileSystem =
  existsSync :: "string \<Rightarrow> bool"
  readdirSync :: "string \<Rightarrow> error + string list"
  isFile :: "string \<Rightarrow> error + bool"

text \<open>\<open>getSkillResourcesInputSchema\<close>: \<open>skillName: z.string().trim().min(1)\<close>,
  \<open>topic: z.string().trim().optional()\<close>, \<open>keywords: z.array(z.string()).optional()\<close>.\<close>

definition getSkillResourcesInputSchema ::
  "js_value \<Rightarrow> error + (string \<times> string option \<times> string list option)" where
  "getSkillResourcesInputSchema input =
     (case input of
        JObject kvs \<Rightarrow>
          (case (zString (getProp kvs ''skillName''), zOptionalString (getProp kvs ''topic''),
                 zOptionalStringArray (getProp kvs ''keywords'')) of
             (Some s, Some t, Some ks) \<Rightarrow>
               (if 1 \<le> length (trim s) then Inr (trim s, map_option trim t, ks)
                else Inl InvalidInput)
           | _ \<Rightarrow> Inl InvalidInput)
      | _ \<Rightarrow> Inl InvalidInput)"

text \<open>\<open>extractTopic\<close>: drop a final \<open>.md\<close>, turn every dash into a space; the third
  \<open>replace\<close> puts each run of digits back as it is.\<close>

definition extractTopic :: "string \<Rightarrow> string" where
  "extractTopic f =
     map (\<lambda>c. if c = CHR ''-'' then CHR '' '' else c)
       (if suffix ''.md'' f then take (length f - 3) f else f)"

definition quoted :: "string \<Rightarrow> string" where
  "quoted s = [CHR 0x22] @ s @ [CHR 0x22]"

text \<open>The loop over \<open>keywords\<close>, carrying \<open>relevance\<close> and \<open>matchedTerms\<close>.\<close>

fun keywordLoop :: "string \<Rightarrow> string list \<Rightarrow> int \<times> string list \<Rightarrow> int \<times> string list" where
  "keywordLoop normalizedTopic [] st = st"
| "keywordLoop normalizedTopic (keyword # ks) (rel, matchedTerms) =
     (if str_includes normalizedTopic (toLowerCase keyword)
      then keywordLoop normalizedTopic ks
             (rel + 10, matchedTerms @ [''keyword: '' @ quoted keyword])
      else keywordLoop normalizedTopic ks (rel, matchedTerms))"

text \<open>\<open>if (topic)\<close> is false for an absent topic and for the empty string;
  \<open>keywords && keywords.length > 0\<close> is false for an absent and for an empty array.\<close>

definition calculateRelevance ::
  "ResourceFile \<Rightarrow> string option \<Rightarrow> string list option \<Rightarrow> RelevanceResult" where
  "calculateRelevance r topic' keywords' =
     (let normalizedTopic = toLowerCase (topic r);
          st0 = (50, []);
          st1 = (case topic' of
                   None \<Rightarrow> st0
                 | Some t \<Rightarrow>
                     if t \<noteq> [] then
                       (if str_includes normalizedTopic (toLowerCase t)
                        then (fst st0 + 40, snd st0 @ [''topic: '' @ quoted t])
                        else st0)
                     else st0);
          st2 = (case keywords' of
                   None \<Rightarrow> st1
                 | Some ks \<Rightarrow> if length ks > 0 then keywordLoop normalizedTopic ks st1 else st1)
      in \<lparr>relevance = min 100 (fst st2),
          resourceReasoning =
            (if length (snd st2) > 0 then ''Matches '' @ joinStrings '', '' (snd st2)
             else ''General resource for this skill'')\<rparr>)"

text \<open>The loop of \<open>discoverResources\<close> over the directory entries.\<close>

fun discoverLoop :: "FileSystem \<Rightarrow> string \<Rightarrow> string \<Rightarrow> string list \<Rightarrow> ResourceFile list" where
  "discoverLoop fs resourcesDir skill [] = []"
| "discoverLoop fs resourcesDir skill (entry # es) =
     (let path = join resourcesDir entry
      in case isFile fs path of
           Inl _ \<Rightarrow> discoverLoop fs resourcesDir skill es
         | Inr f \<Rightarrow>
             if \<not> f \<or> prefix ''.'' entry then discoverLoop fs resourcesDir skill es
             else if \<not> suffix ''.md'' entry then discoverLoop fs resourcesDir skill es
             else \<lparr>fileName = entry, filePath = path, topic = extractTopic entry,
                   skillName = skill\<rparr> # discoverLoop fs resourcesDir skill es)"

definition discoverResources :: "FileSystem \<Rightarrow> string \<Rightarrow> string \<Rightarrow> error + ResourceFile list" where
  "discoverResources fs skillPath skill =
     (let resourcesDir = join skillPath ''resources''
      in if \<not> existsSync fs resourcesDir then Inr []
         else (case readdirSync fs resourcesDir of
                 Inl e \<Rightarrow> Inl e
               | Inr entries \<Rightarrow> Inr (discoverLoop fs resourcesDir skill entries)))"

definition recommend :: "string option \<Rightarrow> string list option \<Rightarrow> ResourceFile \<Rightarrow> ResourceRecommendation" where
  "recommend topic' keywords' r =
     (let c = calculateRelevance r topic' keywords'
      in \<lparr>relevance = relevance c, resourceReasoning = resourceReasoning c, resource = r\<rparr>)"

definition copyRecommendation :: "ResourceRecommendation \<Rightarrow> ResourceRecommendation" where
  "copyRecommendation r =
     \<lparr>relevance = relevance r, resourceReasoning = resourceReasoning r,
      resource = \<lparr>fileName = fileName (resource r), filePath = filePath (resource r),
                  topic = topic (resource r), skillName = skillName (resource r)\<rparr>\<rparr>"

definition getSkillResources :: "FileSystem \<Rightarrow> js_value \<Rightarrow> string \<Rightarrow> error + GetSkillResourcesOutput" where
  "getSkillResources fs input skillsDir =
     (case getSkillResourcesInputSchema input of
        Inl e \<Rightarrow> Inl InvalidInput
      | Inr (skill, topic', keywords') \<Rightarrow>
          (let skillPath = join skillsDir skill
           in if \<not> existsSync fs skillPath then Inl (SkillNotFound skill)
              else (case discoverResources fs skillPath skill of
                      Inl e \<Rightarrow> Inl e
                    | Inr resources \<Rightarrow>
                        (let sortedRecommendations = sortBy (\<lambda>a b. relevance b - relevance a)
                                        (map (recommend topic' keywords') resources);
                             filteredRecommendations = filter (\<lambda>r. relevance r > 40) sortedRecommendations
                         in Inr \<lparr>recommendations = map copyRecommendation filteredRecommendations,
                                 totalResources = length resources\<rparr>))))"

section \<open>get_relevant_skills\<close>

text \<open>\<open>DiscoveredSkill\<close>, as \<open>discoverSkills\<close> builds it; its field \<open>keywords\<close> is
  \<open>skillKeywords\<close> here.\<close>

record DiscoveredSkill = Named +
  skillKeywords :: "string list"
  filePatterns :: "string list"
  skillPath :: string
  skillMdPath :: string

record MatchContext =
  openFiles :: "string list option"
  workingDirectory :: "string option"

record SkillDetails =
  keywordScore :: "int option"
  fileScore :: "int option"
  contentScore :: "int option"

record SkillMatch = ScoredSignals +
  skill :: DiscoveredSkill
  details :: SkillDetails

record GetRelevantSkillsOutput =
  matches :: "SkillMatch list"
  totalSkillsScanned :: nat

text \<open>The tail of \<open>extractKeywords\<close>, from the first capture group of \<open>KEYWORDS_REGEX\<close>
  on (\<open>None\<close> when the content has no \<open>Keywords:\<close> line): split at commas, trim and
  lower-case each piece, keep the non-empty ones.\<close>

definition extractKeywords :: "string option \<Rightarrow> string list" where
  "extractKeywords keywordMatch =
     (case keywordMatch of
        None \<Rightarrow> []
      | Some keywordsStr \<Rightarrow>
          if keywordsStr = [] then []
          else filter (\<lambda>k. length k > 0)
                 (map (\<lambda>k. toLowerCase (trim k)) (split CHR '','' keywordsStr)))"

text \<open>Modelled from the spec: \<open>getRelevantSkillsInputSchema\<close> of \<open>types/schemas.ts\<close>, which
  is not among the sources. The spec (section 7) rejects a prompt that is missing, empty
  or over the maximum length; the shape is the one \<open>index.ts\<close> registers for the same
  tool: \<open>prompt: z.string().trim().min(1).max(10000)\<close>,
  \<open>openFiles: z.array(z.string()).optional()\<close>, \<open>workingDirectory: z.string().optional()\<close>.\<close>

definition getRelevantSkillsInputSchema ::
  "js_value \<Rightarrow> error + (string \<times> string list option \<times> string option)" where
  "getRelevantSkillsInputSchema input =
     (case input of
        JObject kvs \<Rightarrow>
          (case (zString (getProp kvs ''prompt''), zOptionalStringArray (getProp kvs ''openFiles''),
                 zOptionalString (getProp kvs ''workingDirectory'')) of
             (Some s, Some fs, Some wd) \<Rightarrow>
               (let t = trim s
                in if 1 \<le> length t \<and> length t \<le> 10000 then Inr (t, fs, wd)
                   else Inl InvalidInput)
           | _ \<Rightarrow> Inl InvalidInput)
      | _ \<Rightarrow> Inl InvalidInput)"

text \<open>\<open>discoverSkillsCached\<close>, with the module variable \<open>cachedSkills\<close> passed in and
  returned. \<open>scan\<close> is what \<open>discoverSkills(skillsDir)\<close> returns when it is called.\<close>

definition discoverSkillsCached ::
  "DiscoveredSkill list option \<Rightarrow> (error + DiscoveredSkill list)
     \<Rightarrow> (error + DiscoveredSkill list) \<times> DiscoveredSkill list option" where
  "discoverSkillsCached cachedSkills scan =
     (case cachedSkills of
        Some v \<Rightarrow> (Inr v, cachedSkills)
      | None \<Rightarrow> (case scan of Inr v \<Rightarrow> (scan, Some v) | Inl e \<Rightarrow> (scan, cachedSkills)))"

text \<open>\<open>getRelevantSkills\<close>. The matcher \<open>matchPromptToSkills\<close> of
  \<open>services/pattern-matcher.ts\<close> is a parameter.\<close>

definition getRelevantSkills ::
  "(string \<Rightarrow> DiscoveredSkill list \<Rightarrow> MatchContext \<Rightarrow> SkillMatch list) \<Rightarrow> js_value
     \<Rightarrow> DiscoveredSkill list option \<Rightarrow> (error + DiscoveredSkill list)
     \<Rightarrow> (error + GetRelevantSkillsOutput) \<times> DiscoveredSkill list option" where
  "getRelevantSkills matcher input cachedSkills scan =
     (case getRelevantSkillsInputSchema input of
        Inl e \<Rightarrow> (Inl InvalidInput, cachedSkills)
      | Inr (prompt, files, wd) \<Rightarrow>
          (case discoverSkillsCached cachedSkills scan of
             (Inl e, cache') \<Rightarrow> (Inl e, cache')
           | (Inr skills, cache') \<Rightarrow>
               (Inr \<lparr>matches = matcher prompt skills
                                   \<lparr>openFiles = files, workingDirectory = wd\<rparr>,
                      totalSkillsScanned = length skills\<rparr>, cache')))"

subsection \<open>The skill scorer\<close>

text \<open>Modelled from the spec: the skill scorer and \<open>matchPromptToSkills\<close> of
  \<open>services/pattern-matcher.ts\<close> and \<open>services/confidence-scorer.ts\<close>, which are not
  among the sources. Sections 4.1 to 4.3 of the spec give three signal categories with
  the nominal weights 40, 30 and 30, the file category applicable only when an open file
  is supplied, a category applicable to an item only when the item declares a signal in
  it, the weight of a category that is not applicable redistributed in
  proportion over the others, the confidence the rounded, clamped weighted sum of the
  categories' percentages, items of confidence zero left out, and a stable sort by
  descending confidence. The percentage of a category is the share of the item's declared
  signals that matched, the first of the two policies the spec allows. The glob matcher
  and the table of content signals are parameters.\<close>

text \<open>Modelled from the spec: the three signal categories of the absent scorer
  (section 4.2).\<close>

datatype category = Keywords | Files | Content

text \<open>Modelled from the spec: the nominal weights of the absent scorer, keywords 40,
  files 30, content 30.\<close>

definition nominalWeight :: "category \<Rightarrow> rat" where
  "nominalWeight c = (case c of Keywords \<Rightarrow> 40 | Files \<Rightarrow> 30 | Content \<Rightarrow> 30)"

text \<open>Modelled from the spec: the signals an item declares in a category of the absent
  scorer: its keywords, its file patterns, its content signals.\<close>

definition declaredSignals ::
  "(DiscoveredSkill \<Rightarrow> string list) \<Rightarrow> DiscoveredSkill \<Rightarrow> category \<Rightarrow> string list" where
  "declaredSignals contentSignals sk c =
     (case c of
        Keywords \<Rightarrow> skillKeywords sk
      | Files \<Rightarrow> filePatterns sk
      | Content \<Rightarrow> contentSignals sk)"

text \<open>Modelled from the spec: when a category of the absent scorer applies to an item.
  It applies when there is something to check: the item declares a signal in the
  category (scenario 1: the categories a skill declares nothing in are inapplicable and
  their weight is redistributed) and, for the file category, at least one open file is
  supplied.\<close>

definition applicable ::
  "(DiscoveredSkill \<Rightarrow> string list) \<Rightarrow> MatchContext \<Rightarrow> DiscoveredSkill \<Rightarrow> category \<Rightarrow> bool" where
  "applicable contentSignals ctx sk c =
     (declaredSignals contentSignals sk c \<noteq> []
      \<and> (case c of
           Files \<Rightarrow> (case openFiles ctx of Some (f # fs) \<Rightarrow> True | _ \<Rightarrow> False)
         | _ \<Rightarrow> True))"

text \<open>Modelled from the spec: the redistribution of the absent scorer. The weight of an
  applicable category is its nominal weight over the sum of the nominal weights of the
  applicable categories (section 9); a category that is not applicable weighs nothing.\<close>

definition normalizedWeight ::
  "(DiscoveredSkill \<Rightarrow> string list) \<Rightarrow> MatchContext \<Rightarrow> DiscoveredSkill \<Rightarrow> category \<Rightarrow> rat" where
  "normalizedWeight contentSignals ctx sk c =
     (if applicable contentSignals ctx sk c
      then nominalWeight c
             / sum_list (map nominalWeight
                 (filter (applicable contentSignals ctx sk) [Keywords, Files, Content]))
      else 0)"

text \<open>Modelled from the spec: the keyword and content extractors of the absent matcher.
  A declared signal hits when it is not empty and is a case-insensitive substring of the
  prompt; hits are reported once each.\<close>

definition signalHits :: "string \<Rightarrow> string list \<Rightarrow> string list" where
  "signalHits prompt declared =
     filter (\<lambda>k. k \<noteq> [] \<and> str_includes (toLowerCase prompt) (toLowerCase k)) (remdups declared)"

text \<open>Modelled from the spec: the file-pattern extractor of the absent matcher. A
  declared glob hits when some open file matches it.\<close>

definition fileHits :: "(string \<Rightarrow> string \<Rightarrow> bool) \<Rightarrow> string list \<Rightarrow> string list \<Rightarrow> string list" where
  "fileHits globMatch files declared =
     filter (\<lambda>g. list_ex (globMatch g) files) (remdups declared)"

text \<open>Modelled from the spec: the percentage of a category in the absent scorer, the
  share of the declared signals that hit; 0 for a category that declares none.\<close>

definition categoryPercentage :: "string list \<Rightarrow> string list \<Rightarrow> rat" where
  "categoryPercentage hits declared =
     (if declared = [] then 0
      else 100 * of_nat (length hits) / of_nat (length (remdups declared)))"

text \<open>Modelled from the spec: the confidence of one item in the absent scorer, the
  weighted sum of the percentages, rounded to the nearest integer and clamped to 0 and
  100.\<close>

definition scoreSkill ::
  "(string \<Rightarrow> string \<Rightarrow> bool) \<Rightarrow> (DiscoveredSkill \<Rightarrow> string list) \<Rightarrow> string \<Rightarrow> MatchContext
     \<Rightarrow> DiscoveredSkill \<Rightarrow> SkillMatch" where
  "scoreSkill globMatch contentSignals prompt ctx sk =
     (let kw = signalHits prompt (skillKeywords sk);
          fl = fileHits globMatch (case openFiles ctx of None \<Rightarrow> [] | Some fs \<Rightarrow> fs)
                 (filePatterns sk);
          ct = signalHits prompt (contentSignals sk);
          kwPct = categoryPercentage kw (skillKeywords sk);
          flPct = categoryPercentage fl (filePatterns sk);
          ctPct = categoryPercentage ct (contentSignals sk);
          weight = normalizedWeight contentSignals ctx sk;
          total = weight Keywords * kwPct + weight Files * flPct + weight Content * ctPct
      in \<lparr>confidence = max 0 (min 100 (round total)),
          matchedSignals = kw @ fl @ ct,
          skill = sk,
          details =
            \<lparr>keywordScore = (if applicable contentSignals ctx sk Keywords
                              then Some (round kwPct) else None),
             fileScore = (if applicable contentSignals ctx sk Files
                           then Some (round flPct) else None),
             contentScore = (if applicable contentSignals ctx sk Content
                              then Some (round ctPct) else None)\<rparr>\<rparr>)"

text \<open>Modelled from the spec: \<open>matchPromptToSkills\<close> of the absent
  \<open>services/pattern-matcher.ts\<close>. Items of confidence zero are left out; the rest is
  sorted by descending confidence, ties in catalog order.\<close>

definition matchPromptToSkills ::
  "(string \<Rightarrow> string \<Rightarrow> bool) \<Rightarrow> (DiscoveredSkill \<Rightarrow> string list) \<Rightarrow> string
     \<Rightarrow> DiscoveredSkill list \<Rightarrow> MatchContext \<Rightarrow> SkillMatch list" where
  "matchPromptToSkills globMatch contentSignals prompt skills ctx =
     sortBy (\<lambda>a b. confidence b - confidence a)
       (filter (\<lambda>m. confidence m > 0) (map (scoreSkill globMatch contentSignals prompt ctx) skills))"

section \<open>The wording of the specification\<close>

text \<open>\<open>t\<close> is a case-insensitive substring of \<open>s\<close>: after lower-casing both, \<open>t\<close> occurs
  in \<open>s\<close>. The empty string is a substring of every string.\<close>

definition spec_ci_substring :: "string \<Rightarrow> string \<Rightarrow> bool" where
  "spec_ci_substring t s = sublist (toLowerCase t) (toLowerCase s)"

text \<open>The entries of an agent's two signal lists that match a prompt, in list order, and
  the distinct strings among them.\<close>

definition spec_matched_entries :: "string \<Rightarrow> AgentMetadata \<Rightarrow> string list" where
  "spec_matched_entries prompt a =
     filter (\<lambda>s. spec_ci_substring s prompt) (complexitySignals a @ domainSignals a)"

definition spec_distinct_matched :: "string \<Rightarrow> AgentMetadata \<Rightarrow> string list" where
  "spec_distinct_matched prompt a = remdups (spec_matched_entries prompt a)"

text \<open>The agent confidence of the specification for \<open>d\<close> matched signals: 0 for none,
  otherwise 60 and 10 more for each further one, at most 95.\<close>

definition spec_agent_confidence :: "nat \<Rightarrow> int" where
  "spec_agent_confidence d = (if d = 0 then 0 else min 95 (60 + 10 * (int d - 1)))"


text \<open>The relevance that \<open>calculateRelevance\<close> computes, in the same terms: as above,
  but a topic counts only when it is not empty.\<close>

definition amended_relevance :: "string \<Rightarrow> string option \<Rightarrow> string list option \<Rightarrow> int" where
  "amended_relevance derived topic' keywords' =
     min 100
       (50
        + (case topic' of
             None \<Rightarrow> 0
           | Some t \<Rightarrow> if t \<noteq> [] \<and> spec_ci_substring t derived then 40 else 0)
        + 10 * int (length (filter (\<lambda>k. spec_ci_substring k derived)
                              (case keywords' of None \<Rightarrow> [] | Some ks \<Rightarrow> ks))))"

section \<open>Example inputs\<close>

text \<open>A skills directory with one skill, \<open>react\<close>, whose \<open>resources\<close> directory holds
  two resources, a hidden file and a file that is not markdown.\<close>

definition exampleFs :: FileSystem where
  "exampleFs =
     \<lparr>existsSync = (\<lambda>p. p = ''skills/react'' \<or> p = ''skills/react/resources''),
      readdirSync = (\<lambda>p. if p = ''skills/react/resources''
                          then Inr [''react-19-2-features.md'', ''.draft.md'', ''notes.txt'',
                                    ''hooks.md'']
                          else Inl IOError),
      isFile = (\<lambda>p. Inr True)\<rparr>"

definition reactFeatures :: ResourceFile where
  "reactFeatures =
     \<lparr>fileName = ''react-19-2-features.md'',
      filePath = ''skills/react/resources/react-19-2-features.md'',
      topic = ''react 19 2 features'',
      skillName = ''react''\<rparr>"

definition reactHooks :: ResourceFile where
  "reactHooks =
     \<lparr>fileName = ''hooks.md'',
      filePath = ''skills/react/resources/hooks.md'',
      topic = ''hooks'',
      skillName = ''react''\<rparr>"

text \<open>A skill with two keywords and one file pattern; as its content signals the
  examples take the single signal \<open>webhook\<close>.\<close>

definition convexPatterns :: DiscoveredSkill where
  "convexPatterns =
     \<lparr>name = ''convex-patterns'',
      description = ''Convex backend patterns'',
      skillKeywords = [''convex'', ''mutation''],
      filePatterns = [''convex/**/*.ts''],
      skillPath = ''skills/convex-patterns'',
      skillMdPath = ''skills/convex-patterns/SKILL.md''\<rparr>"

definition webhookSignals :: "DiscoveredSkill \<Rightarrow> string list" where
  "webhookSignals sk = [''webhook'']"

definition noContext :: MatchContext where
  "noContext = \<lparr>openFiles = None, workingDirectory = None\<rparr>"

text \<open>The skill of the spec's scenarios 1 and 2: two keywords, no file pattern; it comes
  with no content signal.\<close>

definition scenarioSkill :: DiscoveredSkill where
  "scenarioSkill =
     \<lparr>name = ''convex'',
      description = ''Convex'',
      skillKeywords = [''convex'', ''mutation''],
      filePatterns = [],
      skillPath = ''skills/convex'',
      skillMdPath = ''skills/convex/SKILL.md''\<rparr>"

definition noSignals :: "DiscoveredSkill \<Rightarrow> string list" where
  "noSignals sk = []"

section \<open>Lemmas\<close>

lemma insertBy_insort_key:
  "insertBy (\<lambda>a b. f b - f a) x ys = insort_key (\<lambda>r. - f r) x ys"
  by (induction ys) auto

lemma sortBy_sort_key:
  "sortBy (\<lambda>a b. f b - f a) xs = sort_key (\<lambda>r. - f r) xs"
  by (induction xs) (auto simp: sortBy_def insertBy_insort_key)

lemma set_sortBy: "set (sortBy (\<lambda>a b. f b - f a) xs) = set xs"
  by (simp add: sortBy_sort_key)

lemma catalog_lowercase:
  "list_all (\<lambda>a. list_all (\<lambda>s. toLowerCase s = s) (complexitySignals a @ domainSignals a)) AGENTS"
  by code_simp

lemma catalog_entries:
  assumes "a \<in> set AGENTS"
  shows "spec_matched_entries p a
           = filter (str_includes (toLowerCase p)) (complexitySignals a @ domainSignals a)"
proof -
  have "\<forall>s\<in>set (complexitySignals a @ domainSignals a). toLowerCase s = s"
    using catalog_lowercase assms unfolding list_all_iff by blast
  then show ?thesis
    unfolding spec_matched_entries_def
    by (intro filter_cong) (auto simp: spec_ci_substring_def str_includes_def)
qed

lemma matchAgent_count:
  "confidence (matchAgent p a) =
     spec_agent_confidence
       (length (filter (str_includes (toLowerCase p)) (complexitySignals a @ domainSignals a)))"
  unfolding matchAgent_def Let_def filter_append length_append spec_agent_confidence_def
  by (simp add: algebra_simps)

lemma spec_agent_confidence_range:
  "spec_agent_confidence d = 0 \<or> (60 \<le> spec_agent_confidence d \<and> spec_agent_confidence d \<le> 95)"
  by (cases "d = 0") (auto simp: spec_agent_confidence_def)

lemma matchAgent_range:
  "confidence (matchAgent p a) = 0
     \<or> (60 \<le> confidence (matchAgent p a) \<and> confidence (matchAgent p a) \<le> 95)"
  unfolding matchAgent_count by (rule spec_agent_confidence_range)

lemma matchAgent_none:
  "filter (str_includes (toLowerCase p)) (complexitySignals a @ domainSignals a) = []
     \<Longrightarrow> confidence (matchAgent p a) = 0"
  unfolding matchAgent_count by (simp add: spec_agent_confidence_def)

lemma collect_map:
  "collect p as =
     map (\<lambda>a. \<lparr>confidence = confidence (matchAgent p a),
               matchedSignals = matchedSignals (matchAgent p a),
               reasoning = reasoning (matchAgent p a), agent = a\<rparr>)
       (filter (\<lambda>a. 50 \<le> confidence (matchAgent p a)) as)"
  by (induction as) (auto simp: Let_def)

lemma collect_confidence:
  "r \<in> set (collect p as) \<Longrightarrow> confidence r = confidence (matchAgent p (agent r)) \<and> agent r \<in> set as
      \<and> 50 \<le> confidence r"
  unfolding collect_map by auto

lemma catalog_names: "distinct (map name AGENTS)"
  by code_simp

lemma suggestAgent_Inr:
  "suggestAgent input = Inr out \<Longrightarrow>
     \<exists>prompt. suggestAgentInputSchema input = Inr prompt
       \<and> recommendations out
           = map summary (sort_key (\<lambda>r. - confidence r) (collect prompt AGENTS))"
  unfolding suggestAgent_def by (auto split: sum.splits simp: sortBy_sort_key)

lemma summary_simps:
  "confidence (summary r) = confidence r" "name (agent (summary r)) = name (agent r)"
  by (simp_all add: summary_def)

section \<open>The agent scorer\<close>

text \<open>
  C1, as stated, at the catalog agent \<open>task-spec-creator\<close> and the prompt \<open>system\<close>:
  the signal \<open>system\<close> stands in both of the agent's lists, \<open>matchAgent\<close> pushes it
  twice and returns 70, while one distinct matched signal gives 60.
\<close>

theorem matchAgent_distinct_counterexample:
  "task_spec_creator \<in> set AGENTS
   \<and> confidence (matchAgent ''system'' task_spec_creator) = 70
   \<and> spec_distinct_matched ''system'' task_spec_creator = [''system'']
   \<and> spec_agent_confidence (length (spec_distinct_matched ''system'' task_spec_creator)) = 60
   \<and> confidence (matchAgent ''system'' task_spec_creator)
       \<noteq> spec_agent_confidence (length (spec_distinct_matched ''system'' task_spec_creator))"
  by code_simp

text \<open>
  C1, amended: for every agent of the catalog and every prompt, the confidence is 0 when
  no entry of the agent's complexity and domain signal lists is a case-insensitive
  substring of the prompt, and otherwise \<open>min(95, 60 + 10 * (m - 1))\<close>, where \<open>m\<close> counts
  the matching entries of the two lists, an entry listed in both counting twice. For a
  catalog agent whose two lists share no signal, \<open>m\<close> is the number of distinct matched
  signals. Whatever its other fields, an agent with complexity signal \<open>review\<close> and domain
  signals \<open>security\<close> and \<open>auth\<close> has confidence 80 on the prompt
  \<open>please review this for security and auth issues\<close>.
\<close>

theorem matchAgent_confidence:
  "(a \<in> set AGENTS \<longrightarrow>
      confidence (matchAgent prompt a)
        = spec_agent_confidence (length (spec_matched_entries prompt a)))
   \<and> (a \<in> set AGENTS \<and> distinct (complexitySignals a @ domainSignals a) \<longrightarrow>
      confidence (matchAgent prompt a)
        = spec_agent_confidence (length (spec_distinct_matched prompt a)))
   \<and> confidence (matchAgent ''please review this for security and auth issues''
        \<lparr>name = n, description = d, whenToUse = w, estimatedDuration = e,
         complexitySignals = [''review''], domainSignals = [''security'', ''auth'']\<rparr>) = 80"
proof (intro conjI impI)
  assume "a \<in> set AGENTS"
  then show "confidence (matchAgent prompt a)
               = spec_agent_confidence (length (spec_matched_entries prompt a))"
    by (simp add: catalog_entries matchAgent_count)
next
  assume h: "a \<in> set AGENTS \<and> distinct (complexitySignals a @ domainSignals a)"
  then have "distinct (spec_matched_entries prompt a)"
    unfolding spec_matched_entries_def by (intro distinct_filter) simp
  then have "spec_distinct_matched prompt a = spec_matched_entries prompt a"
    by (simp add: spec_distinct_matched_def)
  with h show "confidence (matchAgent prompt a)
               = spec_agent_confidence (length (spec_distinct_matched prompt a))"
    by (simp add: catalog_entries matchAgent_count)
next
  have "filter (str_includes (toLowerCase ''please review this for security and auth issues''))
          [''review'', ''security'', ''auth''] = [''review'', ''security'', ''auth'']"
    by code_simp
  then show "confidence (matchAgent ''please review this for security and auth issues''
        \<lparr>name = n, description = d, whenToUse = w, estimatedDuration = e,
         complexitySignals = [''review''], domainSignals = [''security'', ''auth'']\<rparr>) = 80"
    unfolding matchAgent_count by (simp add: spec_agent_confidence_def)
qed

text \<open>The catalog agent \<open>security-auditor\<close>, whose lists share no signal, on the
  prompt of the scenario: three matching entries.\<close>

theorem matchAgent_confidence_witness:
  "security_auditor \<in> set AGENTS
   \<and> distinct (complexitySignals security_auditor @ domainSignals security_auditor)
   \<and> confidence (matchAgent ''please review this for security and auth issues'' security_auditor)
       = spec_agent_confidence 3"
proof -
  have h: "security_auditor \<in> set AGENTS" by (simp add: AGENTS_def)
  have d: "distinct (complexitySignals security_auditor @ domainSignals security_auditor)"
    by code_simp
  have m: "length (spec_distinct_matched ''please review this for security and auth issues''
             security_auditor) = 3"
    by code_simp
  from matchAgent_confidence [of security_auditor
      "''please review this for security and auth issues''"] h d
  have "confidence (matchAgent ''please review this for security and auth issues'' security_auditor)
       = spec_agent_confidence (length (spec_distinct_matched
           ''please review this for security and auth issues'' security_auditor))"
    by blast
  with h d m show ?thesis by simp
qed

lemma catalog_inj: "a \<in> set AGENTS \<Longrightarrow> b \<in> set AGENTS \<Longrightarrow> name a = name b \<Longrightarrow> a = b"
  using catalog_names by (meson distinct_map inj_onD)

lemma recommendation_origin:
  assumes "suggestAgent input = Inr out" and "r \<in> set (recommendations out)"
  shows "\<exists>prompt a. suggestAgentInputSchema input = Inr prompt \<and> a \<in> set AGENTS
           \<and> name (agent r) = name a \<and> confidence r = confidence (matchAgent prompt a)
           \<and> 50 \<le> confidence r"
proof -
  from suggestAgent_Inr [OF assms(1)] obtain prompt where
    p: "suggestAgentInputSchema input = Inr prompt" and
    rs: "recommendations out = map summary (sort_key (\<lambda>r. - confidence r) (collect prompt AGENTS))"
    by blast
  from assms(2) rs obtain r' where r': "r' \<in> set (collect prompt AGENTS)" "r = summary r'"
    by auto
  from collect_confidence [OF r'(1)] r'(2) p show ?thesis
    by (auto simp: summary_simps)
qed

text \<open>
  C3: every recommendation \<open>suggestAgent\<close> returns has a confidence of at least 50 (and at
  most 95); a catalog agent none of whose signals matches the validated prompt is not
  among the recommendations; and every confidence \<open>matchAgent\<close> can return is 0 or lies
  between 50 and 95.
\<close>

theorem suggestAgent_threshold:
  assumes "suggestAgent input = Inr out"
  shows "(\<forall>r\<in>set (recommendations out). 50 \<le> confidence r \<and> confidence r \<le> 95)
       \<and> (\<forall>prompt. \<forall>a\<in>set AGENTS.
            suggestAgentInputSchema input = Inr prompt \<and> spec_matched_entries prompt a = []
              \<longrightarrow> name a \<notin> set (map (\<lambda>r. name (agent r)) (recommendations out)))
       \<and> (\<forall>p b. confidence (matchAgent p b) = 0
                \<or> (50 \<le> confidence (matchAgent p b) \<and> confidence (matchAgent p b) \<le> 95))"
proof (intro conjI ballI allI impI)
  fix r assume "r \<in> set (recommendations out)"
  from recommendation_origin [OF assms this] obtain prompt a where
    c: "confidence r = confidence (matchAgent prompt a)" "50 \<le> confidence r"
    by blast
  with matchAgent_range [of prompt a] show "50 \<le> confidence r" "confidence r \<le> 95"
    by auto
next
  fix prompt a
  assume a: "a \<in> set AGENTS"
    and h: "suggestAgentInputSchema input = Inr prompt \<and> spec_matched_entries prompt a = []"
  show "name a \<notin> set (map (\<lambda>r. name (agent r)) (recommendations out))"
  proof
    assume "name a \<in> set (map (\<lambda>r. name (agent r)) (recommendations out))"
    then obtain r where r: "r \<in> set (recommendations out)" "name (agent r) = name a"
      by auto
    from recommendation_origin [OF assms r(1)] h obtain b where
      b: "b \<in> set AGENTS" "name (agent r) = name b"
         "confidence r = confidence (matchAgent prompt b)" "50 \<le> confidence r"
      by auto
    from catalog_inj [OF a b(1)] r(2) b(2) have "a = b" by simp
    moreover from h a have "confidence (matchAgent prompt a) = 0"
      by (simp add: catalog_entries matchAgent_none)
    ultimately show False using b by simp
  qed
next
  fix p b
  from matchAgent_range [of p b]
  show "confidence (matchAgent p b) = 0
          \<or> (50 \<le> confidence (matchAgent p b) \<and> confidence (matchAgent p b) \<le> 95)"
    by auto
qed

lemma audit_this:
  "suggestAgent (JObject [(''prompt'', JString ''audit this'')])
     = Inr \<lparr>recommendations = map summary (collect ''audit this'' [security_auditor])\<rparr>"
  by code_simp

text \<open>The prompt \<open>audit this\<close>: one recommendation, of confidence 60; \<open>plan-reviewer\<close>
  matches nothing and is left out.\<close>

theorem suggestAgent_threshold_witness:
  "\<exists>out. suggestAgent (JObject [(''prompt'', JString ''audit this'')]) = Inr out
     \<and> suggestAgentInputSchema (JObject [(''prompt'', JString ''audit this'')]) = Inr ''audit this''
     \<and> spec_matched_entries ''audit this'' plan_reviewer = []
     \<and> map confidence (recommendations out) = [60]
     \<and> (\<forall>r\<in>set (recommendations out). 50 \<le> confidence r \<and> confidence r \<le> 95)
     \<and> name plan_reviewer \<notin> set (map (\<lambda>r. name (agent r)) (recommendations out))"
proof -
  let ?out = "\<lparr>recommendations = map summary (collect ''audit this'' [security_auditor])\<rparr>"
  have o: "suggestAgent (JObject [(''prompt'', JString ''audit this'')]) = Inr ?out"
    by (rule audit_this)
  have s: "suggestAgentInputSchema (JObject [(''prompt'', JString ''audit this'')]) = Inr ''audit this''"
    by code_simp
  have e: "spec_matched_entries ''audit this'' plan_reviewer = []"
    by code_simp
  have c: "map confidence (recommendations ?out) = [60]"
    by code_simp
  have a: "plan_reviewer \<in> set AGENTS"
    by (simp add: AGENTS_def)
  note t = suggestAgent_threshold [OF o]
  have t2: "name plan_reviewer \<notin> set (map (\<lambda>r. name (agent r)) (recommendations ?out))"
    by (rule t [THEN conjunct2, THEN conjunct1, rule_format, OF a, of "''audit this''"])
       (intro conjI s e)
  show ?thesis
    by (intro exI [of _ ?out] conjI o s e c t [THEN conjunct1] t2)
qed

text \<open>
  C10: every recommendation \<open>suggestAgent\<close> returns has a confidence of at least 60; none
  lies in the interval from 50 up to, not including, 60.
\<close>

theorem suggestAgent_base:
  assumes "suggestAgent input = Inr out"
  shows "\<forall>r\<in>set (recommendations out).
           60 \<le> confidence r \<and> \<not> (50 \<le> confidence r \<and> confidence r < 60)"
proof
  fix r assume "r \<in> set (recommendations out)"
  from recommendation_origin [OF assms this] obtain prompt a where
    c: "confidence r = confidence (matchAgent prompt a)" "50 \<le> confidence r"
    by blast
  with matchAgent_range [of prompt a]
  show "60 \<le> confidence r \<and> \<not> (50 \<le> confidence r \<and> confidence r < 60)"
    by auto
qed

text \<open>The prompt \<open>audit this\<close> again: the list is not empty.\<close>

theorem suggestAgent_base_witness:
  "\<exists>out. suggestAgent (JObject [(''prompt'', JString ''audit this'')]) = Inr out
     \<and> recommendations out \<noteq> []
     \<and> (\<forall>r\<in>set (recommendations out).
           60 \<le> confidence r \<and> \<not> (50 \<le> confidence r \<and> confidence r < 60))"
proof -
  let ?out = "\<lparr>recommendations = map summary (collect ''audit this'' [security_auditor])\<rparr>"
  have o: "suggestAgent (JObject [(''prompt'', JString ''audit this'')]) = Inr ?out"
    by (rule audit_this)
  have n: "recommendations ?out \<noteq> []"
    by code_simp
  show ?thesis
    by (intro exI [of _ ?out] conjI o n suggestAgent_base [OF o])
qed

text \<open>
  C6: the recommendations are in descending order of confidence, and for every confidence
  \<open>c\<close> the recommendations of confidence \<open>c\<close> are, in this order, the catalog's agents
  that score \<open>c\<close> on the validated prompt: ties keep the catalog's order.
\<close>

theorem suggestAgent_sorted:
  assumes "suggestAgent input = Inr out" and "suggestAgentInputSchema input = Inr prompt"
  shows "sorted_wrt (\<lambda>r s. confidence s \<le> confidence r) (recommendations out)
       \<and> (\<forall>c. map (\<lambda>r. name (agent r)) (filter (\<lambda>r. confidence r = c) (recommendations out))
               = map name (filter (\<lambda>a. 50 \<le> c \<and> confidence (matchAgent prompt a) = c) AGENTS))"
proof -
  let ?f = "\<lambda>r::AgentRecommendation. - confidence r"
  let ?xs = "collect prompt AGENTS"
  from suggestAgent_Inr [OF assms(1)] assms(2)
  have rs: "recommendations out = map summary (sort_key ?f ?xs)"
    by auto
  have "sorted (map ?f (sort_key ?f ?xs))"
    by (rule sorted_sort_key)
  then have "sorted_wrt (\<lambda>r s. confidence s \<le> confidence r) (sort_key ?f ?xs)"
    by (simp add: sorted_map)
  then have 1: "sorted_wrt (\<lambda>r s. confidence s \<le> confidence r) (recommendations out)"
    unfolding rs by (simp add: sorted_wrt_map summary_simps)
  have 2: "map (\<lambda>r. name (agent r)) (filter (\<lambda>r. confidence r = c) (recommendations out))
         = map name (filter (\<lambda>a. 50 \<le> c \<and> confidence (matchAgent prompt a) = c) AGENTS)" for c
  proof -
    have "filter (\<lambda>r. confidence r = c) (recommendations out)
            = map summary (filter (\<lambda>r. ?f r = - c) (sort_key ?f ?xs))"
      unfolding rs by (simp add: filter_map o_def summary_simps)
    also have "\<dots> = map summary (filter (\<lambda>r. ?f r = - c) ?xs)"
      by (simp only: sort_key_stable)
    finally have "map (\<lambda>r. name (agent r)) (filter (\<lambda>r. confidence r = c) (recommendations out))
            = map (\<lambda>r. name (agent r)) (filter (\<lambda>r. confidence r = c) ?xs)"
      by (simp add: o_def summary_simps)
    also have "\<dots> = map name (filter (\<lambda>a. 50 \<le> c \<and> confidence (matchAgent prompt a) = c) AGENTS)"
      unfolding collect_map by (simp add: filter_map o_def) (metis (mono_tags, lifting) filter_cong)
    finally show ?thesis .
  qed
  from 1 2 show ?thesis by blast
qed

text \<open>The prompt \<open>review\<close>: \<open>security-auditor\<close> and \<open>plan-reviewer\<close> tie at 60 and come in
  the catalog's order.\<close>

theorem suggestAgent_sorted_witness:
  "\<exists>out. suggestAgent (JObject [(''prompt'', JString ''review'')]) = Inr out
     \<and> suggestAgentInputSchema (JObject [(''prompt'', JString ''review'')]) = Inr ''review''
     \<and> sorted_wrt (\<lambda>r s. confidence s \<le> confidence r) (recommendations out)
     \<and> map (\<lambda>r. name (agent r)) (filter (\<lambda>r. confidence r = 60) (recommendations out))
         = [''security-auditor'', ''plan-reviewer'']"
proof -
  let ?out = "\<lparr>recommendations = map summary (collect ''review'' [security_auditor, plan_reviewer])\<rparr>"
  have o: "suggestAgent (JObject [(''prompt'', JString ''review'')]) = Inr ?out"
    by code_simp
  have s: "suggestAgentInputSchema (JObject [(''prompt'', JString ''review'')]) = Inr ''review''"
    by code_simp
  have k: "map name (filter (\<lambda>a. (50::int) \<le> 60 \<and> confidence (matchAgent ''review'' a) = 60) AGENTS)
             = [''security-auditor'', ''plan-reviewer'']"
  proof -
    have c: "confidence (matchAgent ''review'' task_spec_creator) = 0"
        "confidence (matchAgent ''review'' convex_architect) = 0"
        "confidence (matchAgent ''review'' security_auditor) = 60"
        "confidence (matchAgent ''review'' plan_reviewer) = 60"
      by code_simp+
    have n: "name security_auditor = ''security-auditor''" "name plan_reviewer = ''plan-reviewer''"
      by (simp_all add: security_auditor_def plan_reviewer_def)
    show ?thesis by (simp add: AGENTS_def c n)
  qed
  note t = suggestAgent_sorted [OF o s]
  show ?thesis
    by (intro exI [of _ ?out] conjI o s t [THEN conjunct1]
          trans [OF t [THEN conjunct2, rule_format, of 60] k])
qed

section \<open>Input validation\<close>









section \<open>Resource relevance\<close>

lemma keywordLoop_relevance:
  "fst (keywordLoop nt ks (rel, terms))
     = rel + 10 * int (length (filter (\<lambda>k. str_includes nt (toLowerCase k)) ks))"
  by (induction ks arbitrary: rel terms) auto

lemma relevance_amended:
  "relevance (calculateRelevance r topic' keywords')
     = amended_relevance (topic r) topic' keywords'"
proof -
  have k: "fst (keywordLoop nt ks st)
         = fst st + 10 * int (length (filter (\<lambda>k. str_includes nt (toLowerCase k)) ks))"
    for nt ks st
    using keywordLoop_relevance [of nt ks "fst st" "snd st"] by simp
  have i: "spec_ci_substring t s = str_includes (toLowerCase s) (toLowerCase t)" for t s
    by (simp add: spec_ci_substring_def str_includes_def)
  show ?thesis
  proof (cases topic')
    case None
    then show ?thesis
      unfolding calculateRelevance_def amended_relevance_def Let_def i
      by (cases keywords') (simp_all add: k)
  next
    case (Some t)
    then show ?thesis
      unfolding calculateRelevance_def amended_relevance_def Let_def i
      by (cases keywords') (simp_all add: k)
  qed
qed


lemma relevance_base: "50 \<le> relevance (calculateRelevance r topic' keywords')"
  unfolding relevance_amended amended_relevance_def
  by (cases topic'; cases keywords') simp_all

lemma copyRecommendation_id: "copyRecommendation r = r"
  by (simp add: copyRecommendation_def)

lemma recommend_simps:
  "resource (recommend t ks r) = r"
  "relevance (recommend t ks r) = relevance (calculateRelevance r t ks)"
  by (simp_all add: recommend_def Let_def)

lemma filter_recommend:
  "filter (\<lambda>r. 40 < relevance r) (sort_key (\<lambda>r. - relevance r) (map (recommend t ks) rs))
     = sort_key (\<lambda>r. - relevance r) (map (recommend t ks) rs)"
proof (rule filter_True)
  show "\<forall>x\<in>set (sort_key (\<lambda>r. - relevance r) (map (recommend t ks) rs)). 40 < relevance x"
  proof
    fix x assume "x \<in> set (sort_key (\<lambda>r. - relevance r) (map (recommend t ks) rs))"
    then obtain r where "x = recommend t ks r" by auto
    with relevance_base [of r t ks] show "40 < relevance x"
      by (simp add: recommend_simps)
  qed
qed

lemma getSkillResources_unfold:
  assumes "getSkillResourcesInputSchema input = Inr (sk, t, ks)"
  shows "getSkillResources fs input skillsDir =
     (if \<not> existsSync fs (join skillsDir sk) then Inl (SkillNotFound sk)
      else (case discoverResources fs (join skillsDir sk) sk of
              Inl e \<Rightarrow> Inl e
            | Inr rs \<Rightarrow>
                Inr \<lparr>recommendations = sort_key (\<lambda>r. - relevance r) (map (recommend t ks) rs),
                     totalResources = length rs\<rparr>))"
  unfolding getSkillResources_def Let_def assms sum.case prod.case sortBy_sort_key
    filter_recommend
  by (simp add: copyRecommendation_id [abs_def] cong: sum.case_cong)

lemma getSkillResources_Inr:
  assumes "getSkillResources fs input skillsDir = Inr out"
  shows "\<exists>sk t ks rs. getSkillResourcesInputSchema input = Inr (sk, t, ks)
           \<and> existsSync fs (join skillsDir sk)
           \<and> discoverResources fs (join skillsDir sk) sk = Inr rs
           \<and> recommendations out = sort_key (\<lambda>r. - relevance r) (map (recommend t ks) rs)
           \<and> totalResources out = length rs"
proof (cases "getSkillResourcesInputSchema input")
  case (Inl e)
  with assms show ?thesis by (simp add: getSkillResources_def)
next
  case (Inr x)
  obtain sk t ks where x: "x = (sk, t, ks)" by (cases x)
  note u = getSkillResources_unfold [OF Inr [unfolded x], of fs skillsDir]
  from assms u have e: "existsSync fs (join skillsDir sk)"
    by (auto split: if_splits)
  from assms u e obtain rs where d: "discoverResources fs (join skillsDir sk) sk = Inr rs"
    by (cases "discoverResources fs (join skillsDir sk) sk") auto
  from assms u e d have "recommendations out = sort_key (\<lambda>r. - relevance r) (map (recommend t ks) rs)"
    "totalResources out = length rs"
    by auto
  with Inr x e d show ?thesis by blast
qed

text \<open>
  C4, on the code: the keyword loop of \<open>calculateRelevance\<close> has no guard for the empty
  string. For every resource, the keyword list \<open>[""]\<close>, which the input schema accepts,
  raises the relevance from 50 to 60 and is reported as a match, while an empty topic adds
  nothing and \<open>extractKeywords\<close> never yields an empty keyword.
\<close>

theorem empty_keyword_bonus:
  "relevance (calculateRelevance r None None) = 50
   \<and> relevance (calculateRelevance r None (Some [''''])) = 60
   \<and> resourceReasoning (calculateRelevance r None (Some [''''])) = ''Matches keyword: '' @ quoted ''''
   \<and> relevance (calculateRelevance r (Some '''') None) = 50
   \<and> [] \<notin> set (extractKeywords m)
   \<and> getSkillResourcesInputSchema
        (JObject [(''skillName'', JString ''react''), (''keywords'', JArray [JString ''''])])
       = Inr (''react'', None, Some [''''])"
proof -
  have 1: "relevance (calculateRelevance r None None) = 50"
    "relevance (calculateRelevance r None (Some [''''])) = 60"
    "relevance (calculateRelevance r (Some '''') None) = 50"
    by (simp_all add: relevance_amended amended_relevance_def spec_ci_substring_def toLowerCase_def)
  have 2: "resourceReasoning (calculateRelevance r None (Some [''''])) = ''Matches keyword: '' @ quoted ''''"
    by (simp add: calculateRelevance_def str_includes_def toLowerCase_def)
  have 3: "[] \<notin> set (extractKeywords m)"
    by (cases m) (auto simp: extractKeywords_def)
  have 4: "getSkillResourcesInputSchema
        (JObject [(''skillName'', JString ''react''), (''keywords'', JArray [JString ''''])])
       = Inr (''react'', None, Some [''''])"
    by code_simp
  from 1 2 3 4 show ?thesis by blast
qed





text \<open>
  C9: \<open>calculateRelevance\<close> returns at least 50 for every resource, topic and keyword
  list; so whenever \<open>getSkillResources\<close> succeeds, the filter above 40 drops nothing: the
  recommendations' resources are the discovered resources of the skill, each once, and
  their number is \<open>totalResources\<close>.
\<close>

theorem resources_all_returned:
  assumes "getSkillResources fs input skillsDir = Inr out"
  shows "length (recommendations out) = totalResources out
       \<and> (\<exists>sk t ks rs. getSkillResourcesInputSchema input = Inr (sk, t, ks)
            \<and> discoverResources fs (join skillsDir sk) sk = Inr rs
            \<and> mset (map resource (recommendations out)) = mset rs
            \<and> totalResources out = length rs)
       \<and> (\<forall>r t ks. 50 \<le> relevance (calculateRelevance r t ks))"
proof -
  from getSkillResources_Inr [OF assms] obtain sk t ks rs where
    s: "getSkillResourcesInputSchema input = Inr (sk, t, ks)" and
    d: "discoverResources fs (join skillsDir sk) sk = Inr rs" and
    r: "recommendations out = sort_key (\<lambda>r. - relevance r) (map (recommend t ks) rs)" and
    n: "totalResources out = length rs"
    by blast
  have "mset (map resource (recommendations out)) = image_mset resource (mset (map (recommend t ks) rs))"
    unfolding r by (simp only: mset_map mset_sort)
  also have "\<dots> = mset rs"
    by (simp add: image_mset.compositionality o_def recommend_simps)
  finally have m: "mset (map resource (recommendations out)) = mset rs" .
  from r n have l: "length (recommendations out) = totalResources out"
    by simp
  from s d m n l relevance_base show ?thesis by blast
qed

lemma example_keyword_query:
  "getSkillResources exampleFs
     (JObject [(''skillName'', JString '' react ''), (''keywords'', JArray [JString ''hook''])])
     ''skills''
     = Inr \<lparr>recommendations = [recommend None (Some [''hook'']) reactHooks,
                               recommend None (Some [''hook'']) reactFeatures],
            totalResources = 2\<rparr>"
  by code_simp

text \<open>The example skill queried with keyword \<open>hook\<close>: both resources are returned.\<close>

theorem resources_all_returned_witness:
  "\<exists>out. getSkillResources exampleFs
            (JObject [(''skillName'', JString '' react ''), (''keywords'', JArray [JString ''hook''])])
            ''skills'' = Inr out
     \<and> totalResources out = 2
     \<and> length (recommendations out) = totalResources out"
proof -
  let ?out = "\<lparr>recommendations = [recommend None (Some [''hook'']) reactHooks,
                               recommend None (Some [''hook'']) reactFeatures],
            totalResources = 2\<rparr>"
  have n: "totalResources ?out = 2" by simp
  show ?thesis
    by (intro exI [of _ ?out] conjI example_keyword_query n
          resources_all_returned [OF example_keyword_query, THEN conjunct1])
qed

section \<open>The skill scorer and its entry point\<close>



lemma categoryPercentage_none: "categoryPercentage [] ds = 0"
  by (simp add: categoryPercentage_def)



lemma normalizedWeight_sum:
  "normalizedWeight contentSignals ctx sk Keywords + normalizedWeight contentSignals ctx sk Files
     + normalizedWeight contentSignals ctx sk Content
   = (if list_ex (applicable contentSignals ctx sk) [Keywords, Files, Content] then 1 else 0)"
  by (simp add: normalizedWeight_def nominalWeight_def)




lemma scenario_hits:
  "signalHits ''create a convex mutation'' (skillKeywords scenarioSkill) = [''convex'', ''mutation'']"
  "signalHits ''create a convex mutation'' (noSignals scenarioSkill) = []"
  "signalHits ''Create a Convex mutation for the webhook'' (skillKeywords convexPatterns)
     = [''convex'', ''mutation'']"
  "signalHits ''Create a Convex mutation for the webhook'' (webhookSignals convexPatterns)
     = [''webhook'']"
  "signalHits ''unrelated text about cooking'' (skillKeywords scenarioSkill) = []"
  "signalHits ''unrelated text about cooking'' (noSignals scenarioSkill) = []"
  by code_simp+


text \<open>Scenario 2 of the spec: no keyword of the skill occurs in the prompt, the confidence
  is 0 and the skill is left out.\<close>

lemma scenario_excluded:
  "confidence (scoreSkill (=) noSignals ''unrelated text about cooking'' noContext scenarioSkill) = 0"
  "matchPromptToSkills (=) noSignals ''unrelated text about cooking'' [scenarioSkill] noContext = []"
proof -
  show 0: "confidence (scoreSkill (=) noSignals ''unrelated text about cooking'' noContext
             scenarioSkill) = 0"
    unfolding scoreSkill_def Let_def scenario_hits categoryPercentage_none
    by (simp add: categoryPercentage_def scenarioSkill_def)
  show "matchPromptToSkills (=) noSignals ''unrelated text about cooking'' [scenarioSkill]
          noContext = []"
    by (simp add: matchPromptToSkills_def 0 sortBy_def)
qed

lemma matchPromptToSkills_Nil: "matchPromptToSkills globMatch contentSignals prompt [] ctx = []"
  by (simp add: matchPromptToSkills_def sortBy_def)

text \<open>
  C8: for every valid input, when the catalog that \<open>discoverSkillsCached\<close> returns is
  empty, \<open>getRelevantSkills\<close> succeeds with no matches and \<open>totalSkillsScanned = 0\<close>.
\<close>

theorem empty_catalog:
  assumes "getRelevantSkillsInputSchema input = Inr v"
    and "fst (discoverSkillsCached cachedSkills scan) = Inr []"
  shows "fst (getRelevantSkills (matchPromptToSkills globMatch contentSignals) input
                 cachedSkills scan)
           = Inr \<lparr>matches = [], totalSkillsScanned = 0\<rparr>
       \<and> ok (fst (getRelevantSkills (matchPromptToSkills globMatch contentSignals) input
                 cachedSkills scan))"
proof -
  obtain prompt files wd where v: "v = (prompt, files, wd)" by (cases v)
  obtain c where d: "discoverSkillsCached cachedSkills scan = (Inr [], c)"
    using assms(2) by (cases "discoverSkillsCached cachedSkills scan") simp
  show ?thesis
    by (simp add: getRelevantSkills_def assms(1) v d matchPromptToSkills_Nil ok_def)
qed

text \<open>A first call, nothing cached, on a skills directory with no skill.\<close>

theorem empty_catalog_witness:
  "getRelevantSkillsInputSchema (JObject [(''prompt'', JString ''create a convex mutation'')])
     = Inr (''create a convex mutation'', None, None)
   \<and> fst (discoverSkillsCached None (Inr [])) = Inr []
   \<and> fst (getRelevantSkills (matchPromptToSkills (=) webhookSignals)
            (JObject [(''prompt'', JString ''create a convex mutation'')]) None (Inr []))
       = Inr \<lparr>matches = [], totalSkillsScanned = 0\<rparr>"
proof -
  have s: "getRelevantSkillsInputSchema (JObject [(''prompt'', JString ''create a convex mutation'')])
     = Inr (''create a convex mutation'', None, None)"
    by code_simp
  have d: "fst (discoverSkillsCached None (Inr [])) = Inr []"
    by (simp add: discoverSkillsCached_def)
  show ?thesis
    by (intro conjI s d empty_catalog [OF s d, THEN conjunct1])
qed

end
